theory Spec2Isabelle
  imports Complex_Main "HOL-Library.Sublist"
begin

section \<open>Pfeiffer Maxigauge device server: the handshake, the decode, the channel mask\<close>

text \<open>
  The development follows \<^verbatim>\<open>PfeifferMaxigauge.py\<close>. The device class talks to the
  controller through a VISA serial instrument \<^verbatim>\<open>self.inst\<close>; the methods modelled are
  \<^verbatim>\<open>hexformat\<close>, \<^verbatim>\<open>query\<close>, \<^verbatim>\<open>read_sensor\<close>, \<^verbatim>\<open>enable_sensor\<close> and
  \<^verbatim>\<open>disable_sensor\<close>.

  Strings are \<^typ>\<open>string\<close>, a character being one byte. What the device sends is
  bytes; the instrument was opened with its default encoding, ASCII, so a byte from \<open>0x80\<close>
  on cannot be decoded, and a character from \<open>0x80\<close> on in a command cannot be encoded.
\<close>

subsection \<open>Control characters\<close>

definition ACK :: string where "ACK = [CHR 0x06]"
definition NAK :: string where "NAK = [CHR 0x15]"
definition ENQ :: string where "ENQ = [CHR 0x05]"
definition ETX :: string where "ETX = [CHR 0x03]"

subsection \<open>The instrument and the log streams\<close>

text \<open>
  Everything the methods do to the outside world is recorded, in order, in a trace:
  a line written with the write termination (\<^verbatim>\<open>inst.write\<close>, the first half of
  \<^verbatim>\<open>inst.query\<close>), raw bytes written without it (\<^verbatim>\<open>inst.write_raw\<close>), the bytes of a
  line taken from the device (\<^verbatim>\<open>inst.read\<close>, without the termination), and the texts given
  to \<^verbatim>\<open>debug_stream\<close> and \<^verbatim>\<open>error_stream\<close>.

  The device's side is the list of reply lines it will still send. A read takes the first
  of them; with none left the read runs into the instrument's timeout, which pyvisa raises
  as an exception. The bytes taken are decoded as ASCII, and a byte from \<open>0x80\<close> on raises
  UnicodeDecodeError: the line is gone from the device, and the caller has no string.
  A write encodes the command as ASCII first, and raises UnicodeEncodeError, with nothing
  written, for a character from \<open>0x80\<close> on.
\<close>

datatype event =
    Write string
  | WriteRaw string
  | Read string
  | DebugStream string
  | ErrorStream string

datatype error =
    VisaTimeout | UnicodeDecodeError | UnicodeEncodeError | IndexError | ValueError

record session =
  pending :: "string list"
  trace :: "event list"

text \<open>
  A method returns its value or the exception it raised, together with the session as it
  is afterwards: what was written and logged before an exception stays written.
\<close>

type_synonym 'a result = "(error + 'a) \<times> session"

definition emit :: "event \<Rightarrow> session \<Rightarrow> session" where
  "emit ev s = s\<lparr>trace := trace s @ [ev]\<rparr>"

definition isascii :: "string \<Rightarrow> bool" where
  "isascii text = list_all (\<lambda>c. (of_char c :: nat) < 128) text"

definition inst_write :: "string \<Rightarrow> session \<Rightarrow> unit result" where
  "inst_write msg s =
     (if isascii msg then (Inr (), emit (Write msg) s) else (Inl UnicodeEncodeError, s))"

definition inst_write_raw :: "string \<Rightarrow> session \<Rightarrow> session" where
  "inst_write_raw msg s = emit (WriteRaw msg) s"

definition inst_read :: "session \<Rightarrow> string result" where
  "inst_read s =
     (case pending s of
        [] \<Rightarrow> (Inl VisaTimeout, s)
      | line # rest \<Rightarrow>
          (let s' = emit (Read line) (s\<lparr>pending := rest\<rparr>)
           in if isascii line then (Inr line, s') else (Inl UnicodeDecodeError, s')))"

definition inst_query :: "string \<Rightarrow> session \<Rightarrow> string result" where
  "inst_query msg s =
     (case inst_write msg s of
        (Inl e, s') \<Rightarrow> (Inl e, s')
      | (Inr u, s') \<Rightarrow> inst_read s')"

definition debug_stream :: "string \<Rightarrow> session \<Rightarrow> session" where
  "debug_stream msg s = emit (DebugStream msg) s"

definition error_stream :: "string \<Rightarrow> session \<Rightarrow> session" where
  "error_stream msg s = emit (ErrorStream msg) s"

subsection \<open>hexformat\<close>

text \<open>
  \<^verbatim>\<open>hexstr = [f"{ord(s):02X}" for s in text]; return " ".join(hexstr)\<close>
\<close>

definition hexdigit :: "nat \<Rightarrow> char" where
  "hexdigit n = ''0123456789ABCDEF'' ! n"

definition hex02X :: "char \<Rightarrow> string" where
  "hex02X c = [hexdigit (of_char c div 16), hexdigit (of_char c mod 16)]"

fun join :: "string \<Rightarrow> string list \<Rightarrow> string" where
  "join sep [] = []"
| "join sep [x] = x"
| "join sep (x # y # ys) = x @ sep @ join sep (y # ys)"

definition hexformat :: "string \<Rightarrow> string" where
  "hexformat text = join '' '' (map hex02X text)"

subsection \<open>query\<close>

text \<open>
  \<^verbatim>\<open>ACK in ans\<close> on Python strings is the substring test.
\<close>

definition query :: "string \<Rightarrow> session \<Rightarrow> string result" where
  "query argin s0 =
     (let s1 = debug_stream (''query: '' @ argin) s0 in
      case inst_query argin s1 of
        (Inl e, s2) \<Rightarrow> (Inl e, s2)
      | (Inr ans, s2) \<Rightarrow>
          (let ans_hex = hexformat ans;
               s3 = debug_stream (''reply: '' @ ans @ '' ('' @ ans_hex @ '')'') s2 in
           if sublist ACK ans then
             (let s4 = debug_stream ''Received ACK, proceeding with ENQ'' s3;
                  s5 = inst_write_raw ENQ s4 in
              case inst_read s5 of
                (Inl e, s6) \<Rightarrow> (Inl e, s6)
              | (Inr reply, s6) \<Rightarrow>
                  (Inr reply,
                   debug_stream (''reply: '' @ reply @ '' ('' @ hexformat reply @ '')'') s6))
           else if sublist NAK ans then
             (Inr [], error_stream (''Query resulted in NAK: '' @ argin) s3)
           else
             (Inr [],
              error_stream (''Did not receive ACK on message, got '' @ ans_hex @ '' instead'')
                s3)))"

subsection \<open>Python's built-ins used by the methods\<close>

text \<open>
  \<^verbatim>\<open>str(d)\<close> of an integer: its decimal digits, with a minus sign when negative.
\<close>

definition digit :: "nat \<Rightarrow> char" where
  "digit n = ''0123456789'' ! n"

fun str_nat :: "nat \<Rightarrow> string" where
  "str_nat n =
     (if n < 10 then [digit n]
      else str_nat (n div 10) @ [digit (n mod 10)])"

declare str_nat.simps [simp del]

definition str_int :: "int \<Rightarrow> string" where
  "str_int i = (if i < 0 then CHR ''-'' # str_nat (nat (- i)) else str_nat (nat i))"

text \<open>
  \<^verbatim>\<open>mask[i] = v\<close> on a list: an index from \<open>-len\<close> to \<open>-1\<close> counts from the end,
  an index from \<open>0\<close> to \<open>len - 1\<close> from the start, any other raises IndexError.
\<close>

definition setitem :: "'a list \<Rightarrow> int \<Rightarrow> 'a \<Rightarrow> error + 'a list" where
  "setitem xs i v =
     (let n = int (length xs);
          j = (if i < 0 then i + n else i)
      in if 0 \<le> j \<and> j < n then Inr (xs[nat j := v]) else Inl IndexError)"

text \<open>
  \<^verbatim>\<open>ans.split(',')\<close> with a one-character separator: the fields between the separators,
  in order; a string without the separator (the empty string too) is one field.
\<close>

fun str_split :: "char \<Rightarrow> string \<Rightarrow> string list" where
  "str_split sep [] = [[]]"
| "str_split sep (c # cs) =
     (if c = sep then [] # str_split sep cs
      else (case str_split sep cs of
              [] \<Rightarrow> [[c]]
            | f # fs \<Rightarrow> (c # f) # fs))"

subsection \<open>Python's float() on a string\<close>

text \<open>
  A double is a finite value with its sign (the magnitude an exact rational), an infinity
  with its sign, or a NaN. \<^verbatim>\<open>math.nan\<close> is \<open>NaN\<close>.
\<close>

datatype reading = Finite bool rat | Infinity bool | NaN

text \<open>
  \<^verbatim>\<open>float(s)\<close> strips ASCII whitespace from both ends, accepts an underscore only between
  two digits, and then wants all of the rest to be
  \<^verbatim>\<open>[sign] (digits [. [digits]] | . digits) [(e|E) [sign] digits]\<close>, or, in any letter
  case, \<^verbatim>\<open>[sign] inf\<close>, \<^verbatim>\<open>[sign] infinity\<close> or \<^verbatim>\<open>[sign] nan\<close>. Anything else raises
  ValueError, here \<open>None\<close>. The decimal value is rounded to the nearest double, ties to
  the even significand, and a value that rounds beyond the largest double is an infinity.
\<close>

definition isspace :: "char \<Rightarrow> bool" where
  "isspace c = (c \<in> set [CHR 0x09, CHR 0x0A, CHR 0x0B, CHR 0x0C, CHR 0x0D, CHR 0x20])"

definition isdigit :: "char \<Rightarrow> bool" where
  "isdigit c = (48 \<le> (of_char c :: nat) \<and> (of_char c :: nat) \<le> 57)"

definition lower :: "char \<Rightarrow> char" where
  "lower c =
     (if 65 \<le> (of_char c :: nat) \<and> (of_char c :: nat) \<le> 90
      then char_of (of_char c + (32 :: nat)) else c)"

definition strip :: "string \<Rightarrow> string" where
  "strip s = dropWhile isspace (rev (dropWhile isspace (rev s)))"

fun underscores_ok :: "char \<Rightarrow> string \<Rightarrow> bool" where
  "underscores_ok prev [] = (prev \<noteq> CHR ''_'')"
| "underscores_ok prev (c # cs) =
     (if c = CHR ''_'' then isdigit prev \<and> underscores_ok c cs
      else (prev = CHR ''_'' \<longrightarrow> isdigit c) \<and> underscores_ok c cs)"

definition digits_val :: "string \<Rightarrow> nat" where
  "digits_val ds = foldl (\<lambda>n d. 10 * n + (of_char d - 48)) 0 ds"

definition parse_exponent :: "string \<Rightarrow> int option" where
  "parse_exponent r =
     (case r of
        [] \<Rightarrow> Some 0
      | c # t \<Rightarrow>
          if c = CHR ''e'' \<or> c = CHR ''E'' then
            (let (sg, d) =
                   (case t of
                      [] \<Rightarrow> (1, t)
                    | x # d' \<Rightarrow>
                        if x = CHR ''+'' then (1, d')
                        else if x = CHR ''-'' then (- 1, d')
                        else (1, t))
             in if d \<noteq> [] \<and> list_all isdigit d then Some (sg * int (digits_val d))
                else None)
          else None)"

text \<open>The digits of the significand as a number, and the power of ten it is scaled by.\<close>

definition parse_number :: "string \<Rightarrow> (nat \<times> int) option" where
  "parse_number s =
     (let ip = takeWhile isdigit s;
          r1 = dropWhile isdigit s;
          (fp, r2) =
            (case r1 of
               [] \<Rightarrow> ([], r1)
             | c # t \<Rightarrow>
                 if c = CHR ''.'' then (takeWhile isdigit t, dropWhile isdigit t)
                 else ([], r1))
      in if ip = [] \<and> fp = [] then None
         else (case parse_exponent r2 of
                 None \<Rightarrow> None
               | Some x \<Rightarrow> Some (digits_val (ip @ fp), x - int (length fp))))"

fun bit_length :: "nat \<Rightarrow> nat" where
  "bit_length n = (if n = 0 then 0 else Suc (bit_length (n div 2)))"

declare bit_length.simps [simp del]

definition pow2 :: "int \<Rightarrow> rat" where
  "pow2 e = (if 0 \<le> e then 2 ^ nat e else 1 / 2 ^ nat (- e))"

text \<open>\<open>ilog2 a b\<close> is the integer \<open>e\<close> with \<open>2\<^sup>e \<le> a / b < 2\<^sup>e\<^sup>+\<^sup>1\<close>, for positive \<open>a\<close>, \<open>b\<close>.\<close>

definition ilog2 :: "nat \<Rightarrow> nat \<Rightarrow> int" where
  "ilog2 a b =
     (let e0 = int (bit_length a) - int (bit_length b)
      in if (if 0 \<le> e0 then a < b * 2 ^ nat e0 else a * 2 ^ nat (- e0) < b)
         then e0 - 1 else e0)"

text \<open>The integer nearest to \<open>n / d\<close>, the even one of the two on a tie.\<close>

definition round_half_even :: "nat \<Rightarrow> nat \<Rightarrow> nat" where
  "round_half_even n d =
     (let f = n div d; r = n mod d
      in if 2 * r < d then f
         else if d < 2 * r then f + 1
         else if even f then f else f + 1)"

text \<open>
  The double nearest to \<open>a / b\<close>, with the given sign. The significand has 53 bits; below
  \<open>2\<^sup>-\<^sup>1\<^sup>0\<^sup>2\<^sup>2\<close> the spacing stays \<open>2\<^sup>-\<^sup>1\<^sup>0\<^sup>7\<^sup>4\<close>.
\<close>

definition binary64 :: "bool \<Rightarrow> nat \<Rightarrow> nat \<Rightarrow> reading" where
  "binary64 neg a b =
     (if a = 0 then Finite neg 0
      else
        (let u = max (ilog2 a b) (- 1022) - 52;
             m = (if 0 \<le> u then round_half_even a (b * 2 ^ nat u)
                  else round_half_even (a * 2 ^ nat (- u)) b)
         in if 2 ^ 1024 \<le> of_nat m * pow2 u then Infinity neg
            else Finite neg (of_nat m * pow2 u)))"

definition float_of_str :: "string \<Rightarrow> reading option" where
  "float_of_str s0 =
     (let s = strip s0 in
      if \<not> underscores_ok (CHR 0x00) s then None
      else
        (let s' = filter (\<lambda>c. c \<noteq> CHR ''_'') s;
             (neg, body) =
               (case s' of
                  [] \<Rightarrow> (False, s')
                | c # t \<Rightarrow>
                    if c = CHR ''+'' then (False, t)
                    else if c = CHR ''-'' then (True, t)
                    else (False, s'));
             lw = map lower body
         in if lw = ''inf'' \<or> lw = ''infinity'' then Some (Infinity neg)
            else if lw = ''nan'' then Some NaN
            else (case parse_number body of
                    None \<Rightarrow> None
                  | Some (m, e) \<Rightarrow>
                      Some (if 0 \<le> e then binary64 neg (m * 10 ^ nat e) 1
                            else binary64 neg m (10 ^ nat (- e))))))"

subsection \<open>read\_sensor\<close>

text \<open>
  The body of the \<^verbatim>\<open>try\<close>: unpacking the split into exactly two names raises ValueError
  for any other number of fields, and so does \<^verbatim>\<open>float\<close> on a field it cannot read.
\<close>

definition decode_pressure :: "string \<Rightarrow> error + reading" where
  "decode_pressure ans =
     (case str_split (CHR '','') ans of
        [status, pressure] \<Rightarrow>
          (case float_of_str pressure of
             None \<Rightarrow> Inl ValueError
           | Some v \<Rightarrow> Inr v)
      | _ \<Rightarrow> Inl ValueError)"

text \<open>
  The query is made before the \<^verbatim>\<open>try\<close>, so an exception of the instrument leaves
  \<^verbatim>\<open>read_sensor\<close>; \<^verbatim>\<open>except Exception\<close> turns every failure of the decode into
  \<^verbatim>\<open>nan\<close>.
\<close>

definition read_sensor :: "int \<Rightarrow> session \<Rightarrow> reading result" where
  "read_sensor argin s =
     (case query (''PR'' @ str_int argin) s of
        (Inl e, s') \<Rightarrow> (Inl e, s')
      | (Inr ans, s') \<Rightarrow>
          (Inr (case decode_pressure ans of
                  Inl e \<Rightarrow> NaN
                | Inr pressure \<Rightarrow> pressure),
           s'))"

subsection \<open>enable\_sensor and disable\_sensor\<close>

text \<open>
  \<^verbatim>\<open>mask = 6 * [0]; mask[argin - 1] = 2; mask_str = ','.join([str(d) for d in mask]);
  self.query(f"SEN,{mask_str}")\<close>, and the same with \<open>1\<close> for disabling. The methods
  return nothing: what the query returns is dropped, an exception it raises is not.
\<close>

definition discard :: "string result \<Rightarrow> unit result" where
  "discard r = (case r of (Inl e, s') \<Rightarrow> (Inl e, s') | (Inr reply, s') \<Rightarrow> (Inr (), s'))"

definition enable_sensor :: "int \<Rightarrow> session \<Rightarrow> unit result" where
  "enable_sensor argin s =
     (case setitem (replicate 6 (0 :: int)) (argin - 1) 2 of
        Inl e \<Rightarrow> (Inl e, s)
      | Inr msk \<Rightarrow>
          (let mask_str = join '','' (map str_int msk)
           in discard (query (''SEN,'' @ mask_str) s)))"

definition disable_sensor :: "int \<Rightarrow> session \<Rightarrow> unit result" where
  "disable_sensor argin s =
     (case setitem (replicate 6 (0 :: int)) (argin - 1) 1 of
        Inl e \<Rightarrow> (Inl e, s)
      | Inr msk \<Rightarrow>
          (let mask_str = join '','' (map str_int msk)
           in discard (query (''SEN,'' @ mask_str) s)))"

subsection \<open>What the properties speak of\<close>

text \<open>The command lines written to the instrument, in order, among the events of a trace.\<close>

fun lines_written :: "event list \<Rightarrow> string list" where
  "lines_written [] = []"
| "lines_written (Write msg # evs) = msg # lines_written evs"
| "lines_written (ev # evs) = lines_written evs"

text \<open>A reading that is a number: neither an infinity nor a NaN.\<close>

fun isfinite :: "reading \<Rightarrow> bool" where
  "isfinite (Finite neg q) = True"
| "isfinite (Infinity neg) = False"
| "isfinite NaN = False"

text \<open>
  The \<^verbatim>\<open>SEN\<close> command that sets the slot of channel \<open>c\<close> (from 1 to 6) to the digit
  \<open>d\<close> and leaves the others at 0, written out: no brackets, no spaces.
\<close>

definition sen_command :: "nat \<Rightarrow> char \<Rightarrow> string" where
  "sen_command c d =
     ''SEN,'' @ concat (replicate (c - 1) ''0,'') @ [d] @ concat (replicate (6 - c) '',0'')"

section \<open>Properties\<close>

subsection \<open>Unfolding the methods\<close>

lemmas run_defs = query_def inst_query_def inst_read_def inst_write_def inst_write_raw_def
  debug_stream_def error_stream_def emit_def Let_def

lemmas hex_defs = hexformat_def hex02X_def hexdigit_def

lemmas str_defs = str_int_def str_nat.simps digit_def

lemmas float_defs = float_of_str_def strip_def isspace_def isdigit_def lower_def
  digits_val_def parse_exponent_def parse_number_def pow2_def ilog2_def round_half_even_def
  binary64_def bit_length.simps

subsection \<open>The substring test on a one-character string\<close>

lemma sublist_single: "sublist [c] ys \<longleftrightarrow> c \<in> set ys"
  by (induction ys) (auto simp: sublist_Cons_right)

lemma in_ACK: "sublist ACK ans \<longleftrightarrow> CHR 0x06 \<in> set ans"
  by (simp add: ACK_def sublist_single)

lemma in_NAK: "sublist NAK ans \<longleftrightarrow> CHR 0x15 \<in> set ans"
  by (simp add: NAK_def sublist_single)

subsection \<open>The handshake\<close>

text \<open>
  Claim C1, as stated, fails: a first reply line may hold the byte \<open>0x06\<close> and a byte that
  is not ASCII. The read of that line then raises UnicodeDecodeError inside
  \<^verbatim>\<open>inst.query\<close>, before the line is looked at: no \<open>0x05\<close> is written, the second line
  stays unread, and nothing is returned.
\<close>

theorem query_ack_undecodable:
  "query ''PR1'' \<lparr>pending = [[CHR 0x06, CHR 0xFF], ''0,1.5''], trace = []\<rparr> =
    (Inl UnicodeDecodeError,
     \<lparr>pending = [''0,1.5''],
       trace =
         [DebugStream ''query: PR1'',
          Write ''PR1'',
          Read [CHR 0x06, CHR 0xFF]]\<rparr>)"
  by (simp add: run_defs isascii_def)

text \<open>
  Claim C1, amended. When the command is ASCII, the first reply line is ASCII and holds the
  byte \<open>0x06\<close> anywhere, and the device sends a second line that is ASCII,
  \<^const>\<open>query\<close> writes the command, reads the first line, writes the single raw byte
  \<open>0x05\<close>, reads the second line and returns it; a \<open>0x15\<close> or any other ASCII byte in the
  first line changes nothing. The whole trace is given, so nothing else is written or read.
\<close>

theorem query_ack_returns_payload:
  assumes "pending s = ans # reply # rest" and "CHR 0x06 \<in> set ans"
    and "isascii argin" and "isascii ans" and "isascii reply"
  shows "query argin s =
    (Inr reply,
     s\<lparr>pending := rest,
       trace := trace s @
         [DebugStream (''query: '' @ argin),
          Write argin,
          Read ans,
          DebugStream (''reply: '' @ ans @ '' ('' @ hexformat ans @ '')''),
          DebugStream ''Received ACK, proceeding with ENQ'',
          WriteRaw [CHR 0x05],
          Read reply,
          DebugStream (''reply: '' @ reply @ '' ('' @ hexformat reply @ '')'')]\<rparr>)"
  using assms by (simp add: run_defs in_ACK ENQ_def)

text \<open>
  At a first line that holds both \<open>0x15\<close> and \<open>0x06\<close>: the second line, \<open>0,1.5\<close>, is
  the result, and the third stays unread.
\<close>

theorem query_ack_returns_payload_witness:
  "query ''PR1'' \<lparr>pending = [[CHR 0x15, CHR 0x06], ''0,1.5'', ''x''], trace = []\<rparr> =
    (Inr ''0,1.5'',
     \<lparr>pending = [''x''],
       trace =
         [DebugStream ''query: PR1'',
          Write ''PR1'',
          Read [CHR 0x15, CHR 0x06],
          DebugStream (''reply: '' @ [CHR 0x15, CHR 0x06] @ '' (15 06)''),
          DebugStream ''Received ACK, proceeding with ENQ'',
          WriteRaw [CHR 0x05],
          Read ''0,1.5'',
          DebugStream ''reply: 0,1.5 (30 2C 31 2E 35)'']\<rparr>)"
  using query_ack_returns_payload
    [of "\<lparr>pending = [[CHR 0x15, CHR 0x06], ''0,1.5'', ''x''], trace = []\<rparr>"
        "[CHR 0x15, CHR 0x06]" "''0,1.5''" "[''x'']" "''PR1''"]
  by (simp add: hex_defs isascii_def)

text \<open>
  When the device sends nothing after its acknowledgement, the raw \<open>0x05\<close> has been
  written all the same and the read's timeout leaves \<^const>\<open>query\<close> as an exception; when
  the second line is not ASCII, it is the decoding error that leaves it.
\<close>

lemma query_ack_timeout:
  assumes "pending s = [ans]" and "CHR 0x06 \<in> set ans"
    and "isascii argin" and "isascii ans"
  shows "fst (query argin s) = Inl VisaTimeout \<and>
         last (trace (snd (query argin s))) = WriteRaw [CHR 0x05]"
  using assms by (simp add: run_defs in_ACK ENQ_def)

lemma query_ack_payload_undecodable:
  assumes "pending s = ans # reply # rest" and "CHR 0x06 \<in> set ans"
    and "isascii argin" and "isascii ans" and "\<not> isascii reply"
  shows "fst (query argin s) = Inl UnicodeDecodeError"
  using assms by (simp add: run_defs in_ACK ENQ_def)

text \<open>A command that is not ASCII is never written, and no reply is read.\<close>

lemma query_unencodable:
  assumes "\<not> isascii argin"
  shows "query argin s =
    (Inl UnicodeEncodeError, s\<lparr>trace := trace s @ [DebugStream (''query: '' @ argin)]\<rparr>)"
  using assms by (simp add: run_defs)

text \<open>
  Claim C2, as stated, fails: a first reply line without the byte \<open>0x06\<close> may hold a byte
  that is not ASCII, and then \<^const>\<open>query\<close> does not return the empty string: the read
  raises UnicodeDecodeError, and no text goes to the error stream.
\<close>

theorem query_no_ack_undecodable:
  "query ''PR3'' \<lparr>pending = [[CHR 0xFF]], trace = []\<rparr> =
    (Inl UnicodeDecodeError,
     \<lparr>pending = [],
       trace =
         [DebugStream ''query: PR3'',
          Write ''PR3'',
          Read [CHR 0xFF]]\<rparr>)"
  by (simp add: run_defs isascii_def)

text \<open>
  Claim C2, amended. When the command is ASCII and the first reply line is ASCII and does
  not hold the byte \<open>0x06\<close>, \<^const>\<open>query\<close> returns the empty string; the trace has the
  one write of the command and the one read and no raw write, and the lines the device sends
  later stay unread. With a \<open>0x15\<close> in the line or without, only the text given to the
  error stream differs.
\<close>

theorem query_no_ack_empty:
  assumes "pending s = ans # rest" and "CHR 0x06 \<notin> set ans"
    and "isascii argin" and "isascii ans"
  shows "query argin s =
    (Inr [],
     s\<lparr>pending := rest,
       trace := trace s @
         [DebugStream (''query: '' @ argin),
          Write argin,
          Read ans,
          DebugStream (''reply: '' @ ans @ '' ('' @ hexformat ans @ '')''),
          ErrorStream
            (if CHR 0x15 \<in> set ans then ''Query resulted in NAK: '' @ argin
             else ''Did not receive ACK on message, got '' @ hexformat ans @ '' instead'')]\<rparr>)"
  using assms by (simp add: run_defs in_ACK in_NAK)

text \<open>At a rejected command, and at a line of three question marks.\<close>

theorem query_no_ack_empty_witness:
  "query ''PR3'' \<lparr>pending = [[CHR 0x15], ''late''], trace = []\<rparr> =
    (Inr [],
     \<lparr>pending = [''late''],
       trace =
         [DebugStream ''query: PR3'',
          Write ''PR3'',
          Read [CHR 0x15],
          DebugStream (''reply: '' @ [CHR 0x15] @ '' (15)''),
          ErrorStream ''Query resulted in NAK: PR3'']\<rparr>) \<and>
   query ''PR3'' \<lparr>pending = [''???'', ''late''], trace = []\<rparr> =
    (Inr [],
     \<lparr>pending = [''late''],
       trace =
         [DebugStream ''query: PR3'',
          Write ''PR3'',
          Read ''???'',
          DebugStream ''reply: ??? (3F 3F 3F)'',
          ErrorStream ''Did not receive ACK on message, got 3F 3F 3F instead'']\<rparr>)"
  using query_no_ack_empty
    [of "\<lparr>pending = [[CHR 0x15], ''late''], trace = []\<rparr>" "[CHR 0x15]" "[''late'']" "''PR3''"]
    query_no_ack_empty
    [of "\<lparr>pending = [''???'', ''late''], trace = []\<rparr>" "''???''" "[''late'']" "''PR3''"]
  by (simp add: hex_defs isascii_def)

subsection \<open>Splitting a reply into fields\<close>

lemma str_split_not_Nil: "str_split sep s \<noteq> []"
  by (induction s) (auto split: list.splits)

lemma str_split_no_sep: "sep \<notin> set s \<Longrightarrow> str_split sep s = [s]"
  by (induction s) auto


lemma length_str_split: "length (str_split sep s) = Suc (count_list s sep)"
  by (induction s) (auto split: list.splits simp: str_split_not_Nil)



lemma decode_second_field_invalid:
  assumes "float_of_str (str_split (CHR '','') ans ! 1) = None"
  shows "decode_pressure ans = Inl ValueError"
  using assms by (auto simp: decode_pressure_def split: list.splits option.splits)

lemma decode_wrong_count:
  assumes "count_list ans (CHR '','') \<noteq> 1"
  shows "decode_pressure ans = Inl ValueError"
proof -
  have "length (str_split (CHR '','') ans) \<noteq> 2"
    using assms by (simp add: length_str_split)
  then show ?thesis
    by (auto simp: decode_pressure_def split: list.splits)
qed

subsection \<open>Reading a sensor\<close>



text \<open>
  Claim C4. When the query returns the empty string, a string without a comma, or a string
  whose second field \<^verbatim>\<open>float\<close> cannot read, \<^const>\<open>read_sensor\<close> returns NaN, as a
  value: no exception leaves it.
\<close>

theorem read_sensor_undecodable:
  assumes "query (''PR'' @ str_int argin) s = (Inr ans, s')"
    and "ans = [] \<or> CHR '','' \<notin> set ans \<or>
         (CHR '','' \<in> set ans \<and> float_of_str (str_split (CHR '','') ans ! 1) = None)"
  shows "read_sensor argin s = (Inr NaN, s')"
proof -
  have "decode_pressure ans = Inl ValueError"
    using assms(2)
  proof (elim disjE conjE)
    assume "ans = []"
    then show ?thesis by (simp add: decode_pressure_def)
  next
    assume "CHR '','' \<notin> set ans"
    then show ?thesis by (simp add: decode_pressure_def str_split_no_sep)
  next
    assume "float_of_str (str_split (CHR '','') ans ! 1) = None"
    then show ?thesis by (rule decode_second_field_invalid)
  qed
  with assms(1) show ?thesis by (simp add: read_sensor_def)
qed

text \<open>
  At a rejected command (the query returns the empty string), at a payload without a
  comma, and at a payload whose second field is \<open>1.2.3\<close>.
\<close>

theorem read_sensor_undecodable_witness:
  "fst (read_sensor 3 \<lparr>pending = [[CHR 0x15]], trace = []\<rparr>) = Inr NaN \<and>
   fst (read_sensor 3 \<lparr>pending = [[CHR 0x06], ''no data''], trace = []\<rparr>) = Inr NaN \<and>
   fst (read_sensor 3 \<lparr>pending = [[CHR 0x06], ''0,1.2.3''], trace = []\<rparr>) = Inr NaN"
proof -
  let ?a = "\<lparr>pending = [[CHR 0x15]], trace = []\<rparr>"
  let ?b = "\<lparr>pending = [[CHR 0x06], ''no data''], trace = []\<rparr>"
  let ?c = "\<lparr>pending = [[CHR 0x06], ''0,1.2.3''], trace = []\<rparr>"
  have qa: "query (''PR'' @ str_int 3) ?a = (Inr [], snd (query (''PR'' @ str_int 3) ?a))"
    by (simp add: run_defs in_ACK in_NAK isascii_def str_defs)
  have qb: "query (''PR'' @ str_int 3) ?b =
      (Inr ''no data'', snd (query (''PR'' @ str_int 3) ?b))"
    by (simp add: run_defs in_ACK ENQ_def isascii_def str_defs)
  have qc: "query (''PR'' @ str_int 3) ?c =
      (Inr ''0,1.2.3'', snd (query (''PR'' @ str_int 3) ?c))"
    by (simp add: run_defs in_ACK ENQ_def isascii_def str_defs)
  have c: "float_of_str (str_split (CHR '','') ''0,1.2.3'' ! 1) = None"
    by (simp add: float_defs)
  show ?thesis
    using read_sensor_undecodable [OF qa] read_sensor_undecodable [OF qb]
      read_sensor_undecodable [OF qc] c
    by simp
qed

text \<open>
  Claim C10. When the query returns a string with two or more commas, \<^const>\<open>read_sensor\<close>
  returns NaN, whatever the fields are: the unpacking wants exactly two.
\<close>

theorem read_sensor_many_fields:
  assumes "query (''PR'' @ str_int argin) s = (Inr ans, s')"
    and "2 \<le> count_list ans (CHR '','')"
  shows "read_sensor argin s = (Inr NaN, s')"
proof -
  have "decode_pressure ans = Inl ValueError"
    using assms(2) by (intro decode_wrong_count) simp
  with assms(1) show ?thesis by (simp add: read_sensor_def)
qed

text \<open>At \<open>0,1.5,2.5\<close>, where the second and the third field are both numbers.\<close>

theorem read_sensor_many_fields_witness:
  "fst (read_sensor 2 \<lparr>pending = [[CHR 0x06], ''0,1.5,2.5''], trace = []\<rparr>) = Inr NaN"
proof -
  let ?s = "\<lparr>pending = [[CHR 0x06], ''0,1.5,2.5''], trace = []\<rparr>"
  have q: "query (''PR'' @ str_int 2) ?s =
      (Inr ''0,1.5,2.5'', snd (query (''PR'' @ str_int 2) ?s))"
    by (simp add: run_defs in_ACK ENQ_def isascii_def str_defs)
  show ?thesis
    using read_sensor_many_fields [OF q] by simp
qed

text \<open>
  Claim C7, as stated, fails: \<^verbatim>\<open>float\<close> reads \<open>inf\<close> as an infinity, so the payload
  \<open>0,inf\<close> gives a reading that is neither finite nor NaN.
\<close>

theorem read_sensor_infinity:
  "fst (read_sensor 1 \<lparr>pending = [[CHR 0x06], ''0,inf''], trace = []\<rparr>) =
     Inr (Infinity False) \<and>
   \<not> isfinite (Infinity False) \<and> Infinity False \<noteq> NaN"
  by (simp add: read_sensor_def decode_pressure_def run_defs in_ACK ENQ_def str_defs
      float_defs isascii_def)

text \<open>
  Claim C7, amended. A reading that \<^const>\<open>read_sensor\<close> returns is finite, or NaN, or an
  infinity; and an infinity only when the query returned exactly two fields and
  \<^verbatim>\<open>float\<close> reads the second one as that infinity.
\<close>

theorem read_sensor_reading:
  assumes "read_sensor argin s = (Inr r, s')"
  shows "isfinite r \<or> r = NaN \<or>
    (\<exists>neg ans status val. r = Infinity neg \<and>
       query (''PR'' @ str_int argin) s = (Inr ans, s') \<and>
       str_split (CHR '','') ans = [status, val] \<and>
       float_of_str val = Some (Infinity neg))"
  using assms
  by (cases r)
    (auto simp: read_sensor_def decode_pressure_def
      split: prod.splits sum.splits list.splits option.splits)

text \<open>At the payloads \<open>0,1.5\<close>, a finite reading, and \<open>0,-Infinity\<close>.\<close>

theorem read_sensor_reading_witness:
  "fst (read_sensor 1 \<lparr>pending = [[CHR 0x06], ''0,1.5''], trace = []\<rparr>) =
     Inr (Finite False (3 / 2)) \<and>
   isfinite (Finite False (3 / 2)) \<and>
   fst (read_sensor 1 \<lparr>pending = [[CHR 0x06], ''0,-Infinity''], trace = []\<rparr>) =
     Inr (Infinity True) \<and>
   float_of_str ''-Infinity'' = Some (Infinity True)"
proof -
  let ?s = "\<lparr>pending = [[CHR 0x06], ''0,1.5''], trace = []\<rparr>"
  let ?t = "\<lparr>pending = [[CHR 0x06], ''0,-Infinity''], trace = []\<rparr>"
  define s' where "s' = snd (read_sensor 1 ?s)"
  define t' where "t' = snd (read_sensor 1 ?t)"
  have r: "read_sensor 1 ?s = (Inr (Finite False (3 / 2)), s')"
    unfolding s'_def
    by (simp add: read_sensor_def decode_pressure_def run_defs in_ACK ENQ_def str_defs
        float_defs isascii_def)
  have f: "float_of_str ''-Infinity'' = Some (Infinity True)"
    by (simp add: float_defs char_of_def bit_Suc_0_iff)
  have t: "read_sensor 1 ?t = (Inr (Infinity True), t')"
    unfolding t'_def
    by (simp add: read_sensor_def decode_pressure_def run_defs in_ACK ENQ_def str_defs f
        isascii_def)
  show ?thesis
    using read_sensor_reading [OF r] read_sensor_reading [OF t] r t f by simp
qed

subsection \<open>The trace of a query\<close>

lemma lines_written_append: "lines_written (xs @ ys) = lines_written xs @ lines_written ys"
  by (induction xs rule: lines_written.induct) auto

lemma snd_discard: "snd (discard r) = snd r"
  by (auto simp: discard_def split: prod.splits sum.splits)

lemma fst_discard_error: "fst (discard r) = Inl e \<longleftrightarrow> fst r = Inl e"
  by (auto simp: discard_def split: prod.splits sum.splits)

text \<open>Whatever the device answers, a query writes its command line once and no other.\<close>

lemma query_lines_written:
  assumes "isascii argin"
  shows "lines_written (trace (snd (query argin s))) = lines_written (trace s) @ [argin]"
  using assms
  by (cases "pending s"; cases "tl (pending s)")
    (auto simp: run_defs lines_written_append)

lemma query_not_IndexError: "fst (query argin s) \<noteq> Inl IndexError"
  by (cases "pending s"; cases "tl (pending s)") (auto simp: run_defs)

subsection \<open>Enabling and disabling a channel\<close>

lemma channel_cases:
  assumes "1 \<le> channel" and "channel \<le> 6"
  shows "channel = 1 \<or> channel = 2 \<or> channel = 3 \<or> channel = 4 \<or> channel = 5 \<or>
         channel = (6::int)"
  using assms by arith

lemma negative_cases:
  assumes "- 5 \<le> channel" and "channel \<le> 0"
  shows "channel = - 5 \<or> channel = - 4 \<or> channel = - 3 \<or> channel = - 2 \<or>
         channel = - 1 \<or> channel = (0::int)"
  using assms by arith

lemma str_int_digit: "str_int 0 = ''0''" "str_int 1 = ''1''" "str_int 2 = ''2''"
  by (simp_all add: str_defs)

lemma replicate6: "replicate 6 x = [x, x, x, x, x, x]"
  by (simp add: eval_nat_numeral)

lemma isascii_sen_command:
  assumes "1 \<le> channel" and "channel \<le> 6"
  shows "isascii (sen_command (nat channel) (CHR ''2''))"
  using channel_cases [OF assms]
  by (elim disjE) (simp_all add: sen_command_def isascii_def eval_nat_numeral)

lemma setitem_in_range:
  assumes "1 \<le> channel" and "channel \<le> 6"
  shows "setitem (replicate 6 (0::int)) (channel - 1) v =
         Inr ((replicate 6 0)[nat (channel - 1) := v])"
  using assms by (simp add: setitem_def)

lemma enable_sensor_in_range:
  assumes "1 \<le> channel" and "channel \<le> 6"
  shows "enable_sensor channel s = discard (query (sen_command (nat channel) (CHR ''2'')) s)"
  using channel_cases [OF assms]
  by (elim disjE)
    (simp_all add: enable_sensor_def setitem_def sen_command_def replicate6 str_int_digit
      eval_nat_numeral)

lemma disable_sensor_in_range:
  assumes "1 \<le> channel" and "channel \<le> 6"
  shows "disable_sensor channel s = discard (query (sen_command (nat channel) (CHR ''1'')) s)"
  using channel_cases [OF assms]
  by (elim disjE)
    (simp_all add: disable_sensor_def setitem_def sen_command_def replicate6 str_int_digit
      eval_nat_numeral)

lemma enable_sensor_negative:
  assumes "- 5 \<le> channel" and "channel \<le> 0"
  shows "enable_sensor channel s =
         discard (query (sen_command (nat (channel + 6)) (CHR ''2'')) s)"
  using negative_cases [OF assms]
  by (elim disjE)
    (simp_all add: enable_sensor_def setitem_def sen_command_def replicate6 str_int_digit
      eval_nat_numeral)

lemma disable_sensor_negative:
  assumes "- 5 \<le> channel" and "channel \<le> 0"
  shows "disable_sensor channel s =
         discard (query (sen_command (nat (channel + 6)) (CHR ''1'')) s)"
  using negative_cases [OF assms]
  by (elim disjE)
    (simp_all add: disable_sensor_def setitem_def sen_command_def replicate6 str_int_digit
      eval_nat_numeral)

text \<open>
  Claim C5. For a channel from 1 to 6 the mask is six zeros with the value put at index
  \<open>channel - 1\<close>; \<^const>\<open>enable_sensor\<close> puts 2 and \<^const>\<open>disable_sensor\<close> puts 1, and each
  issues the query \<open>SEN,\<close> followed by the six digits joined by commas, with no brackets and
  no spaces. Enabling channel 4 issues the query \<open>SEN,0,0,0,2,0,0\<close>.
\<close>

theorem set_channel_command:
  assumes "1 \<le> channel" and "channel \<le> 6"
  shows "setitem (replicate 6 (0::int)) (channel - 1) v =
           Inr ((replicate 6 0)[nat (channel - 1) := v]) \<and>
         enable_sensor channel s =
           discard (query (sen_command (nat channel) (CHR ''2'')) s) \<and>
         disable_sensor channel s =
           discard (query (sen_command (nat channel) (CHR ''1'')) s) \<and>
         enable_sensor 4 s = discard (query ''SEN,0,0,0,2,0,0'' s)"
proof -
  have "enable_sensor 4 s = discard (query (sen_command (nat 4) (CHR ''2'')) s)"
    by (rule enable_sensor_in_range) simp_all
  then have "enable_sensor 4 s = discard (query ''SEN,0,0,0,2,0,0'' s)"
    by (simp add: sen_command_def eval_nat_numeral)
  then show ?thesis
    using assms
    by (simp add: setitem_in_range enable_sensor_in_range disable_sensor_in_range)
qed

text \<open>Enabling channel 4 and disabling channel 6, on a device that does not answer.\<close>

theorem set_channel_command_witness:
  "enable_sensor 4 \<lparr>pending = [], trace = []\<rparr> =
     (Inl VisaTimeout,
      \<lparr>pending = [],
        trace = [DebugStream ''query: SEN,0,0,0,2,0,0'', Write ''SEN,0,0,0,2,0,0'']\<rparr>) \<and>
   disable_sensor 6 \<lparr>pending = [], trace = []\<rparr> =
     (Inl VisaTimeout,
      \<lparr>pending = [],
        trace = [DebugStream ''query: SEN,0,0,0,0,0,1'', Write ''SEN,0,0,0,0,0,1'']\<rparr>)"
  using set_channel_command [of 4 2 "\<lparr>pending = [], trace = []\<rparr>"]
    set_channel_command [of 6 1 "\<lparr>pending = [], trace = []\<rparr>"]
  by (simp add: sen_command_def discard_def run_defs isascii_def eval_nat_numeral)

text \<open>
  Claim C6, as stated, fails: channel 0 is outside 1 to 6, and \<^const>\<open>enable_sensor\<close> raises
  no IndexError for it but sends the command that enables channel 6;
  \<^const>\<open>disable_sensor\<close> returns normally as well.
\<close>

theorem enable_sensor_zero:
  "enable_sensor 0 \<lparr>pending = [[CHR 0x06], ''''], trace = []\<rparr> =
     (Inr (),
      \<lparr>pending = [],
        trace =
          [DebugStream ''query: SEN,0,0,0,0,0,2'',
           Write ''SEN,0,0,0,0,0,2'',
           Read [CHR 0x06],
           DebugStream (''reply: '' @ [CHR 0x06] @ '' (06)''),
           DebugStream ''Received ACK, proceeding with ENQ'',
           WriteRaw [CHR 0x05],
           Read '''',
           DebugStream ''reply:  ()'']\<rparr>) \<and>
   fst (disable_sensor 0 \<lparr>pending = [[CHR 0x06], ''''], trace = []\<rparr>) = Inr ()"
  by (simp add: enable_sensor_def disable_sensor_def setitem_def replicate6 str_defs
      discard_def run_defs in_ACK ENQ_def hex_defs isascii_def)

text \<open>
  Claim C6, amended. For a channel below \<open>-5\<close> or above 6, \<^const>\<open>enable_sensor\<close> and
  \<^const>\<open>disable_sensor\<close> raise IndexError when the mask is built, and the session is as it
  was: nothing is written or logged.
\<close>

theorem set_channel_out_of_range:
  assumes "channel < - 5 \<or> 6 < channel"
  shows "enable_sensor channel s = (Inl IndexError, s) \<and>
         disable_sensor channel s = (Inl IndexError, s)"
  using assms by (auto simp: enable_sensor_def disable_sensor_def setitem_def)

text \<open>At channel 7 and at channel \<open>-6\<close>.\<close>

theorem set_channel_out_of_range_witness:
  "enable_sensor 7 \<lparr>pending = [[CHR 0x06], ''''], trace = []\<rparr> =
     (Inl IndexError, \<lparr>pending = [[CHR 0x06], ''''], trace = []\<rparr>) \<and>
   disable_sensor 7 \<lparr>pending = [[CHR 0x06], ''''], trace = []\<rparr> =
     (Inl IndexError, \<lparr>pending = [[CHR 0x06], ''''], trace = []\<rparr>) \<and>
   enable_sensor (- 6) \<lparr>pending = [[CHR 0x06], ''''], trace = []\<rparr> =
     (Inl IndexError, \<lparr>pending = [[CHR 0x06], ''''], trace = []\<rparr>)"
  using set_channel_out_of_range [of 7 "\<lparr>pending = [[CHR 0x06], ''''], trace = []\<rparr>"]
    set_channel_out_of_range [of "- 6" "\<lparr>pending = [[CHR 0x06], ''''], trace = []\<rparr>"]
  by simp

text \<open>
  Claim C9. For a channel from \<open>-5\<close> to 0 the index \<open>channel - 1\<close> is negative and counts
  from the end of the mask: the slot set is that of channel \<open>channel + 6\<close>. Neither method
  raises IndexError; each issues its query. Enabling channel 0 issues the query
  \<open>SEN,0,0,0,0,0,2\<close>.
\<close>

theorem set_channel_negative_index:
  assumes "- 5 \<le> channel" and "channel \<le> 0"
  shows "enable_sensor channel s =
           discard (query (sen_command (nat (channel + 6)) (CHR ''2'')) s) \<and>
         disable_sensor channel s =
           discard (query (sen_command (nat (channel + 6)) (CHR ''1'')) s) \<and>
         fst (enable_sensor channel s) \<noteq> Inl IndexError \<and>
         fst (disable_sensor channel s) \<noteq> Inl IndexError \<and>
         enable_sensor 0 s = discard (query ''SEN,0,0,0,0,0,2'' s)"
proof -
  have "enable_sensor 0 s = discard (query (sen_command (nat (0 + 6)) (CHR ''2'')) s)"
    by (rule enable_sensor_negative) simp_all
  then have "enable_sensor 0 s = discard (query ''SEN,0,0,0,0,0,2'' s)"
    by (simp add: sen_command_def eval_nat_numeral)
  then show ?thesis
    using assms
    by (simp add: enable_sensor_negative disable_sensor_negative fst_discard_error
        query_not_IndexError)
qed

text \<open>Enabling channel \<open>-5\<close> and disabling channel 0, on a device that does not answer.\<close>

theorem set_channel_negative_index_witness:
  "enable_sensor (- 5) \<lparr>pending = [], trace = []\<rparr> =
     (Inl VisaTimeout,
      \<lparr>pending = [],
        trace = [DebugStream ''query: SEN,2,0,0,0,0,0'', Write ''SEN,2,0,0,0,0,0'']\<rparr>) \<and>
   disable_sensor 0 \<lparr>pending = [], trace = []\<rparr> =
     (Inl VisaTimeout,
      \<lparr>pending = [],
        trace = [DebugStream ''query: SEN,0,0,0,0,0,1'', Write ''SEN,0,0,0,0,0,1'']\<rparr>)"
  using set_channel_negative_index [of "- 5" "\<lparr>pending = [], trace = []\<rparr>"]
    set_channel_negative_index [of 0 "\<lparr>pending = [], trace = []\<rparr>"]
  by (simp add: sen_command_def discard_def run_defs isascii_def eval_nat_numeral)

text \<open>
  Claim C8. For a channel from 1 to 6, two calls of \<^const>\<open>enable_sensor\<close> in a row write
  two command lines and they are the same \<open>SEN\<close> command, whatever the device answers to
  the first.
\<close>

theorem enable_sensor_twice:
  assumes "1 \<le> c" and "c \<le> 6"
  shows "lines_written (trace (snd (enable_sensor c (snd (enable_sensor c s))))) =
         lines_written (trace s) @
           [sen_command (nat c) (CHR ''2''), sen_command (nat c) (CHR ''2'')]"
  using assms
  by (simp add: enable_sensor_in_range snd_discard query_lines_written isascii_sen_command)

text \<open>Enabling channel 3 twice, after a pressure had been read.\<close>

theorem enable_sensor_twice_witness:
  "lines_written
     (trace (snd (enable_sensor 3 (snd (enable_sensor 3
        \<lparr>pending = [[CHR 0x06], ''''], trace = [Write ''PR1'']\<rparr>))))) =
   [''PR1'', ''SEN,0,0,2,0,0,0'', ''SEN,0,0,2,0,0,0'']"
  using enable_sensor_twice [of 3 "\<lparr>pending = [[CHR 0x06], ''''], trace = [Write ''PR1'']\<rparr>"]
  by (simp add: sen_command_def eval_nat_numeral)

end
